theory Spec2Isabelle
  imports Main "HOL-Library.Sublist" "HOL-Library.Multiset"
begin

section \<open>Strings\<close>

text \<open>
  The application handles Python \<open>str\<close> values. A string is modelled as a \<open>string\<close>
  whose characters are the code points 0 to 255; the three string operations the matching
  code uses (\<open>lower\<close>, \<open>strip\<close> and the operator \<open>in\<close>) are written out for that range.
\<close>

definition isspace :: "char \<Rightarrow> bool" where
  \<comment> \<open>the code points below 256 that \<open>str.strip()\<close> removes\<close>
  "isspace c = ((of_char c :: nat) \<in> {9, 10, 11, 12, 13, 28, 29, 30, 31, 32, 133, 160})"

definition lower_char :: "char \<Rightarrow> char" where
  \<comment> \<open>\<open>A\<close> to \<open>Z\<close>, and the upper-case letters of the range 192 to 222 (215 is the
      multiplication sign), move up by 32\<close>
  "lower_char c =
     (let n = (of_char c :: nat)
      in if (65 \<le> n \<and> n \<le> 90) \<or> (192 \<le> n \<and> n \<le> 222 \<and> n \<noteq> 215)
         then char_of (n + 32) else c)"

definition lower :: "string \<Rightarrow> string" where
  "lower s = map lower_char s"

definition strip :: "string \<Rightarrow> string" where
  "strip s = rev (dropWhile isspace (rev (dropWhile isspace s)))"

fun startswith :: "string \<Rightarrow> string \<Rightarrow> bool" where
  \<comment> \<open>\<open>startswith s p\<close>: \<open>s\<close> begins with \<open>p\<close>\<close>
  "startswith s [] = True"
| "startswith [] (c # p) = False"
| "startswith (a # s) (c # p) = (a = c \<and> startswith s p)"

fun str_in :: "string \<Rightarrow> string \<Rightarrow> bool" where
  \<comment> \<open>\<open>str_in a b\<close> is Python's \<open>a in b\<close>: \<open>a\<close> occurs in \<open>b\<close> as a contiguous run\<close>
  "str_in a [] = (a = [])"
| "str_in a (c # b) = (startswith (c # b) a \<or> str_in a b)"

section \<open>Blood compatibility matrix\<close>

definition dict_get :: "('k \<rightharpoonup> 'v) \<Rightarrow> 'k \<Rightarrow> 'v \<Rightarrow> 'v" where
  \<comment> \<open>\<open>d.get(k, default)\<close>\<close>
  "dict_get d k dflt = (case d k of None \<Rightarrow> dflt | Some v \<Rightarrow> v)"

definition BLOOD_COMPATIBILITY_items :: "(string \<times> string list) list" where
  "BLOOD_COMPATIBILITY_items =
     [(''A+'', [''A+'', ''A-'', ''O+'', ''O-'']),
      (''A-'', [''A-'', ''O-'']),
      (''B+'', [''B+'', ''B-'', ''O+'', ''O-'']),
      (''B-'', [''B-'', ''O-'']),
      (''AB+'', [''A+'', ''A-'', ''B+'', ''B-'', ''AB+'', ''AB-'', ''O+'', ''O-'']),
      (''AB-'', [''A-'', ''B-'', ''AB-'', ''O-'']),
      (''O+'', [''O+'', ''O-'']),
      (''O-'', [''O-''])]"

definition BLOOD_COMPATIBILITY :: "string \<rightharpoonup> string list" where
  "BLOOD_COMPATIBILITY = map_of BLOOD_COMPATIBILITY_items"

definition blood_types :: "string list" where
  \<comment> \<open>the keys of the matrix: the 8 defined blood types\<close>
  "blood_types = map fst BLOOD_COMPATIBILITY_items"

section \<open>Location proximity\<close>

definition calculate_location_distance :: "string \<Rightarrow> string \<Rightarrow> int" where
  "calculate_location_distance loc1 loc2 =
     (let loc1_clean = strip (lower loc1);
          loc2_clean = strip (lower loc2)
      in if loc1_clean = loc2_clean then 0
         else if str_in loc1_clean loc2_clean \<or> str_in loc2_clean loc1_clean then 1
         else 2)"









section \<open>Store and environment\<close>

text \<open>
  Rows of the three tables. The primary key column \<open>id\<close> of each table is the first field.
\<close>

record donor =
  donor_id :: nat
  name :: string
  blood_group :: string
  email :: string
  phone :: string
  location :: string

record blood_request =
  request_id :: nat
  hospital_name :: string
  hospital_email :: string
  hospital_phone :: string
  hospital_location :: string
  required_blood_group :: string
  patient_details :: string
  urgency_level :: string
  status :: string
  created_at :: nat

record match_row =
  match_id :: nat
  match_request_id :: nat
  match_donor_id :: nat
  notified_at :: nat

text \<open>
  The database: the rows of each table in the order a \<open>SELECT\<close> without \<open>ORDER BY\<close> returns
  them, and the two \<open>AUTOINCREMENT\<close> counters.
\<close>

record database =
  donors :: "donor list"
  blood_requests :: "blood_request list"
  matches :: "match_row list"
  request_seq :: nat
  match_seq :: nat

datatype exn = OperationalError string | OtherError string

text \<open>
  Everything a run depends on besides the database and the submitted fields: the
  configuration read at start-up, the clock, and for every call that can raise whether it
  does. An exception carries its message (\<open>str(e)\<close>).
\<close>

record world =
  EMAIL_CONFIG_email :: string
  EMAIL_CONFIG_password :: string
  USE_WHATSAPP_WEB :: bool
  CURRENT_TIMESTAMP :: nat
  connection_submit :: bool
  connection_find :: bool
  insert_request_raises :: "exn option"
  commit_request_raises :: "exn option"
  select_donors_raises :: "exn option"
  smtp_raises :: "string \<Rightarrow> bool"
  insert_match_raises :: "nat \<Rightarrow> nat \<Rightarrow> exn option"
  commit_matches_raises :: "exn option"

text \<open>
  \<open>connection_submit\<close> and \<open>connection_find\<close> say whether \<open>get_db_connection()\<close> yields a
  connection in \<open>submit_request\<close> and in \<open>find_compatible_donors\<close>; \<open>smtp_raises addr\<close>
  says whether the SMTP conversation for the recipient \<open>addr\<close> times out or raises;
  \<open>insert_match_raises r d\<close> is the exception, if any, of the \<open>INSERT INTO matches\<close> for
  request \<open>r\<close> and donor \<open>d\<close>.
\<close>

section \<open>Finding compatible donors\<close>

definition select_donors :: "database \<Rightarrow> string list \<Rightarrow> donor list" where
  \<comment> \<open>\<open>SELECT ... FROM donors WHERE blood_group IN (...)\<close>, strings compared exactly\<close>
  "select_donors db compatible_groups =
     filter (\<lambda>row. blood_group row \<in> set compatible_groups) (donors db)"

fun separate :: "string \<Rightarrow> donor list \<Rightarrow> donor list \<times> donor list \<Rightarrow> donor list \<times> donor list" where
  \<comment> \<open>the loop over \<open>all_donors\<close>, with the two lists it appends to\<close>
  "separate hospital_loc [] (nearby_donors, far_donors) = (nearby_donors, far_donors)"
| "separate hospital_loc (d # all_donors) (nearby_donors, far_donors) =
     (let distance = calculate_location_distance (location d) hospital_loc
      in if distance \<le> 1
         then separate hospital_loc all_donors (nearby_donors @ [d], far_donors)
         else separate hospital_loc all_donors (nearby_donors, far_donors @ [d]))"

definition find_compatible_donors_body ::
    "world \<Rightarrow> database \<Rightarrow> string \<Rightarrow> string \<Rightarrow> exn + donor list \<times> donor list" where
  \<comment> \<open>the \<open>try\<close> block\<close>
  "find_compatible_donors_body w db required_group hospital_loc =
     (let compatible_groups = dict_get BLOOD_COMPATIBILITY required_group []
      in if compatible_groups = [] then Inr ([], [])
         else (case select_donors_raises w of
                 Some e \<Rightarrow> Inl e
               | None \<Rightarrow>
                   Inr (separate hospital_loc (select_donors db compatible_groups) ([], []))))"

definition find_compatible_donors ::
    "world \<Rightarrow> database \<Rightarrow> string \<Rightarrow> string \<Rightarrow> exn + donor list \<times> donor list" where
  \<comment> \<open>\<open>Inl\<close> would be an exception reaching the caller; \<open>Inr\<close> is a returned pair\<close>
  "find_compatible_donors w db required_group hospital_loc =
     (if \<not> connection_find w then Inr ([], [])
      else (case find_compatible_donors_body w db required_group hospital_loc of
              Inl e \<Rightarrow> Inr ([], [])
            | Inr r \<Rightarrow> Inr r))"

section \<open>Notification\<close>

definition body_keys :: "string list" where
  \<comment> \<open>the keys of \<open>request_details\<close> that the message body subscripts\<close>
  "body_keys =
     [''blood_group'', ''hospital_name'', ''hospital_location'', ''hospital_email'',
      ''hospital_phone'']"

definition send_email_notification ::
    "world \<Rightarrow> string \<Rightarrow> string \<Rightarrow> (string \<rightharpoonup> string) \<Rightarrow> bool" where
  \<comment> \<open>a missing key raises \<open>KeyError\<close> while the body is built, inside the \<open>try\<close>\<close>
  "send_email_notification w donor_email donor_name request_details =
     (if EMAIL_CONFIG_email w = [] \<or> EMAIL_CONFIG_password w = [] then False
      else if \<not> list_all (\<lambda>k. request_details k \<noteq> None) body_keys then False
      else if smtp_raises w donor_email then False
      else True)"

definition send_whatsapp_notification ::
    "world \<Rightarrow> string \<Rightarrow> string \<Rightarrow> (string \<rightharpoonup> string) \<Rightarrow> bool" where
  "send_whatsapp_notification w donor_phone donor_name request_details =
     (if \<not> USE_WHATSAPP_WEB w then True else True)"

datatype event = EmailAttempt donor | WhatsAppAttempt donor

definition insert_match :: "world \<Rightarrow> nat \<Rightarrow> nat \<Rightarrow> database \<Rightarrow> exn + database" where
  \<comment> \<open>\<open>INSERT INTO matches (request_id, donor_id) VALUES (?, ?)\<close>\<close>
  "insert_match w rid did db =
     (case insert_match_raises w rid did of
        Some e \<Rightarrow> Inl e
      | None \<Rightarrow>
          Inr (db\<lparr>matches := matches db @
                     [\<lparr>match_id = match_seq db + 1, match_request_id = rid,
                       match_donor_id = did, notified_at = CURRENT_TIMESTAMP w\<rparr>],
                   match_seq := match_seq db + 1\<rparr>))"

text \<open>
  The two notification loops. The state is the database as the open cursor sees it, the
  counter \<open>notified_count\<close> (first loop only) and the list of notification calls made so
  far, oldest first. An exception inside the body is caught there and the loop continues
  with the next donor.
\<close>

fun notify_nearby ::
    "world \<Rightarrow> nat \<Rightarrow> (string \<rightharpoonup> string) \<Rightarrow> donor list \<Rightarrow>
     database \<times> nat \<times> event list \<Rightarrow> database \<times> nat \<times> event list" where
  "notify_nearby w rid request_details [] st = st"
| "notify_nearby w rid request_details (d # nearby_donors) (db, notified_count, calls) =
     (let email_sent = send_email_notification w (email d) (name d) request_details;
          whatsapp = send_whatsapp_notification w (phone d) (name d) request_details;
          calls' = calls @ [EmailAttempt d, WhatsAppAttempt d]
      in if email_sent
         then (case insert_match w rid (donor_id d) db of
                 Inl e \<Rightarrow> notify_nearby w rid request_details nearby_donors
                            (db, notified_count, calls')
               | Inr db' \<Rightarrow> notify_nearby w rid request_details nearby_donors
                             (db', notified_count + 1, calls'))
         else notify_nearby w rid request_details nearby_donors (db, notified_count, calls'))"

fun notify_far ::
    "world \<Rightarrow> nat \<Rightarrow> (string \<rightharpoonup> string) \<Rightarrow> donor list \<Rightarrow>
     database \<times> event list \<Rightarrow> database \<times> event list" where
  "notify_far w rid request_details [] st = st"
| "notify_far w rid request_details (d # far_donors) (db, calls) =
     (let email_sent = send_email_notification w (email d) (name d) request_details;
          whatsapp = send_whatsapp_notification w (phone d) (name d) request_details;
          calls' = calls @ [EmailAttempt d, WhatsAppAttempt d]
      in (case insert_match w rid (donor_id d) db of
            Inl e \<Rightarrow> notify_far w rid request_details far_donors (db, calls')
          | Inr db' \<Rightarrow> notify_far w rid request_details far_donors (db', calls')))"

section \<open>Submitting a request\<close>

datatype body =
    Rejected (message: string)
  | Accepted (notified: nat) (accepted_request_id: nat) (nearby_count: nat) (far_count: nat)

text \<open>
  \<open>Accepted n r k f\<close> is the success body: \<open>n\<close> is the \<open>notified_count\<close> that the message
  text carries, \<open>r\<close>, \<open>k\<close> and \<open>f\<close> are its fields \<open>request_id\<close>, \<open>nearby_count\<close> and
  \<open>far_count\<close>.
\<close>

datatype response = Response (http_status: nat) (json: body)

definition required_fields :: "string list" where
  "required_fields =
     [''hospital_name'', ''hospital_email'', ''hospital_phone'', ''hospital_location'',
      ''required_blood_group'']"

definition item :: "(string \<rightharpoonup> string) \<Rightarrow> string \<Rightarrow> string" where
  \<comment> \<open>\<open>data[k]\<close>, used only below the check that every required key is present\<close>
  "item data k = dict_get data k []"

definition insert_request ::
    "world \<Rightarrow> (string \<rightharpoonup> string) \<Rightarrow> database \<Rightarrow> exn + database" where
  \<comment> \<open>\<open>INSERT INTO blood_requests ...\<close>; \<open>status\<close> and \<open>created_at\<close> take their defaults\<close>
  "insert_request w data db =
     (case insert_request_raises w of
        Some e \<Rightarrow> Inl e
      | None \<Rightarrow>
          Inr (db\<lparr>blood_requests := blood_requests db @
                     [\<lparr>request_id = request_seq db + 1,
                       hospital_name = item data ''hospital_name'',
                       hospital_email = item data ''hospital_email'',
                       hospital_phone = item data ''hospital_phone'',
                       hospital_location = item data ''hospital_location'',
                       required_blood_group = item data ''required_blood_group'',
                       patient_details = dict_get data ''patient_details'' [],
                       urgency_level = dict_get data ''urgency_level'' ''normal'',
                       status = ''pending'',
                       created_at = CURRENT_TIMESTAMP w\<rparr>],
                   request_seq := request_seq db + 1\<rparr>))"

definition error_response :: "exn \<Rightarrow> response" where
  \<comment> \<open>the two outer \<open>except\<close> clauses\<close>
  "error_response e =
     (case e of
        OperationalError msg \<Rightarrow>
          if str_in ''locked'' (lower msg)
          then Response 503 (Rejected ''Database is busy. Please try again in a moment.'')
          else Response 500 (Rejected (''Database error: '' @ msg))
      | OtherError msg \<Rightarrow> Response 500 (Rejected msg))"

definition mk_request_details :: "(string \<rightharpoonup> string) \<Rightarrow> (string \<rightharpoonup> string)" where
  "mk_request_details data =
     [''hospital_name'' \<mapsto> item data ''hospital_name'',
      ''hospital_email'' \<mapsto> item data ''hospital_email'',
      ''hospital_phone'' \<mapsto> item data ''hospital_phone'',
      ''hospital_location'' \<mapsto> item data ''hospital_location'',
      ''blood_group'' \<mapsto> item data ''required_blood_group'',
      ''patient_details'' \<mapsto> dict_get data ''patient_details'' []]"

definition notify_donors ::
    "world \<Rightarrow> nat \<Rightarrow> (string \<rightharpoonup> string) \<Rightarrow> donor list \<Rightarrow> donor list \<Rightarrow> database \<Rightarrow>
     database \<times> nat \<times> event list" where
  \<comment> \<open>the loop over \<open>nearby_donors\<close>, then the loop over \<open>far_donors[:5]\<close>\<close>
  "notify_donors w rid request_details nearby_donors far_donors db =
     (case notify_nearby w rid request_details nearby_donors (db, 0, []) of
        (db2, notified_count, calls2) \<Rightarrow>
          (case notify_far w rid request_details (take 5 far_donors) (db2, calls2) of
             (db3, calls3) \<Rightarrow> (db3, notified_count, calls3)))"

text \<open>
  \<open>submit_request\<close> returns the response, the database as committed when the connection
  is closed, and the notification calls made. Rows inserted after the last successful
  \<open>commit\<close> are lost when the connection closes.
\<close>

definition submit_request ::
    "world \<Rightarrow> database \<Rightarrow> (string \<rightharpoonup> string) \<Rightarrow> response \<times> database \<times> event list" where
  "submit_request w db data =
     (if \<not> list_all (\<lambda>field. data field \<noteq> None) required_fields
      then (Response 400 (Rejected ''Missing required fields''), db, [])
      else if \<not> connection_submit w
      then (Response 500 (Rejected ''Database connection failed''), db, [])
      else (case insert_request w data db of
              Inl e \<Rightarrow> (error_response e, db, [])
            | Inr db1 \<Rightarrow>
               (let rid = request_seq db1
                in case commit_request_raises w of
                     Some e \<Rightarrow> (error_response e, db, [])
                   | None \<Rightarrow>
                      (case find_compatible_donors w db1 (item data ''required_blood_group'')
                              (item data ''hospital_location'') of
                         Inl e \<Rightarrow> (error_response e, db1, [])
                       | Inr (nearby_donors, far_donors) \<Rightarrow>
                          (case notify_donors w rid (mk_request_details data)
                                  nearby_donors far_donors db1 of
                             (db3, notified_count, calls) \<Rightarrow>
                               (case commit_matches_raises w of
                                  Some e \<Rightarrow> (error_response e, db1, calls)
                                | None \<Rightarrow>
                                   (Response 201
                                      (Accepted notified_count rid (length nearby_donors)
                                         (length far_donors)),
                                    db3, calls)))))))"

section \<open>Notions used to state the properties\<close>

definition request_persisted :: "world \<Rightarrow> (string \<rightharpoonup> string) \<Rightarrow> bool" where
  \<comment> \<open>the run gets past the first \<open>commit\<close>: the request row is stored\<close>
  "request_persisted w data =
     (list_all (\<lambda>field. data field \<noteq> None) required_fields \<and> connection_submit w
      \<and> insert_request_raises w = None \<and> commit_request_raises w = None)"

definition email_confirmed :: "world \<Rightarrow> (string \<rightharpoonup> string) \<Rightarrow> donor \<Rightarrow> bool" where
  \<comment> \<open>the email channel reports success for the donor\<close>
  "email_confirmed w request_details d =
     send_email_notification w (email d) (name d) request_details"

definition insert_accepted :: "world \<Rightarrow> nat \<Rightarrow> donor \<Rightarrow> bool" where
  \<comment> \<open>the store accepts the match row of the donor: the \<open>INSERT\<close> does not raise\<close>
  "insert_accepted w rid d = (insert_match_raises w rid (donor_id d) = None)"

definition match_key :: "match_row \<Rightarrow> nat \<times> nat" where
  "match_key m = (match_request_id m, match_donor_id m)"

definition calls_for :: "donor list \<Rightarrow> event list" where
  \<comment> \<open>one email call and one WhatsApp call for each donor, in order\<close>
  "calls_for ds = concat (map (\<lambda>d. [EmailAttempt d, WhatsAppAttempt d]) ds)"

fun email_calls :: "event list \<Rightarrow> donor list" where
  "email_calls [] = []"
| "email_calls (EmailAttempt d # es) = d # email_calls es"
| "email_calls (WhatsAppAttempt d # es) = email_calls es"

fun whatsapp_calls :: "event list \<Rightarrow> donor list" where
  "whatsapp_calls [] = []"
| "whatsapp_calls (EmailAttempt d # es) = whatsapp_calls es"
| "whatsapp_calls (WhatsAppAttempt d # es) = d # whatsapp_calls es"

section \<open>A concrete store\<close>

text \<open>
  Eight donors whose blood group can donate to \<open>A+\<close> (two of them in Mumbai, six
  elsewhere) and one \<open>B+\<close> donor; a request for \<open>A+\<close> from a hospital in Mumbai; a world
  in which everything works except the mail to the second donor.
\<close>

definition asha :: donor where
  "asha = \<lparr>donor_id = 1, name = ''Asha'', blood_group = ''O-'', email = ''asha@example.org'',
           phone = ''9000000001'', location = ''Mumbai''\<rparr>"

definition ravi :: donor where
  "ravi = \<lparr>donor_id = 2, name = ''Ravi'', blood_group = ''A+'', email = ''ravi@example.org'',
           phone = ''9000000002'', location = '' mumbai central ''\<rparr>"

definition far_donor :: "nat \<Rightarrow> string \<Rightarrow> string \<Rightarrow> string \<Rightarrow> donor" where
  "far_donor i g addr loc =
     \<lparr>donor_id = i, name = ''Donor'', blood_group = g, email = addr,
      phone = addr, location = loc\<rparr>"

definition far_six :: "donor list" where
  "far_six =
     [far_donor 3 ''A-'' ''d3'' ''Delhi'',
      far_donor 4 ''O+'' ''d4'' ''Pune'',
      far_donor 5 ''A+'' ''d5'' ''Chennai'',
      far_donor 6 ''O-'' ''d6'' ''Kolkata'',
      far_donor 7 ''A-'' ''d7'' ''Jaipur'',
      far_donor 8 ''O+'' ''d8'' ''Surat'']"

definition example_db :: database where
  "example_db =
     \<lparr>donors = [asha, ravi] @ far_six @ [far_donor 9 ''B+'' ''d9'' ''Mumbai''],
      blood_requests = [], matches = [], request_seq = 0, match_seq = 0\<rparr>"

definition empty_db :: database where
  "empty_db = \<lparr>donors = [], blood_requests = [], matches = [], request_seq = 0, match_seq = 0\<rparr>"

definition example_world :: world where
  "example_world =
     \<lparr>EMAIL_CONFIG_email = ''alerts@example.org'', EMAIL_CONFIG_password = ''secret'',
      USE_WHATSAPP_WEB = False, CURRENT_TIMESTAMP = 1000,
      connection_submit = True, connection_find = True,
      insert_request_raises = None, commit_request_raises = None,
      select_donors_raises = None,
      smtp_raises = (\<lambda>addr. addr = ''ravi@example.org''),
      insert_match_raises = (\<lambda>rid did. None),
      commit_matches_raises = None\<rparr>"

definition locked_world :: world where
  \<comment> \<open>as \<open>example_world\<close>, but every \<open>INSERT INTO matches\<close> raises\<close>
  "locked_world =
     example_world\<lparr>insert_match_raises :=
        (\<lambda>rid did. Some (OperationalError ''database is locked''))\<rparr>"

definition unreachable_world :: world where
  \<comment> \<open>as \<open>example_world\<close>, but \<open>find_compatible_donors\<close> gets no connection\<close>
  "unreachable_world = example_world\<lparr>connection_find := False\<rparr>"

definition example_data :: "string \<rightharpoonup> string" where
  "example_data =
     [''hospital_name'' \<mapsto> ''City Hospital'',
      ''hospital_email'' \<mapsto> ''desk@hospital.example'',
      ''hospital_phone'' \<mapsto> ''0221234567'',
      ''hospital_location'' \<mapsto> ''Mumbai'',
      ''required_blood_group'' \<mapsto> ''A+'']"

definition blank_donor :: donor where
  "blank_donor = far_donor 10 ''O+'' ''d10'' ''   ''"

section \<open>Strings: auxiliary facts\<close>



lemma startswith_prefix: "startswith s p = prefix p s"
  by (induction s p rule: startswith.induct) auto

lemma str_in_sublist: "str_in a b = sublist a b"
  by (induction b) (auto simp: startswith_prefix sublist_Cons_right)







lemma str_in_Nil: "str_in [] b"
  by (simp add: str_in_sublist)

lemma distance_cases:
  "calculate_location_distance a b = 0 \<or> calculate_location_distance a b = 1
    \<or> calculate_location_distance a b = 2"
  by (simp add: calculate_location_distance_def Let_def)

lemma distance_blank:
  assumes "strip (lower a) = [] \<or> strip (lower b) = []"
  shows "calculate_location_distance a b \<le> 1"
  using assms by (auto simp: calculate_location_distance_def Let_def str_in_Nil)

section \<open>Finding compatible donors: auxiliary facts\<close>

lemma separate_filter:
  "separate loc ds (ns, fs) =
     (ns @ filter (\<lambda>d. calculate_location_distance (location d) loc \<le> 1) ds,
      fs @ filter (\<lambda>d. \<not> calculate_location_distance (location d) loc \<le> 1) ds)"
  by (induction ds arbitrary: ns fs) (simp_all add: Let_def)

lemma fcd_shape:
  assumes "find_compatible_donors w db g loc = Inr (nearby, far)"
  obtains ds where "ds = [] \<or> ds = select_donors db (dict_get BLOOD_COMPATIBILITY g [])"
    and "nearby = filter (\<lambda>d. calculate_location_distance (location d) loc \<le> 1) ds"
    and "far = filter (\<lambda>d. \<not> calculate_location_distance (location d) loc \<le> 1) ds"
proof (cases "connection_find w \<and> dict_get BLOOD_COMPATIBILITY g [] \<noteq> []
               \<and> select_donors_raises w = None")
  case True
  with assms have "(nearby, far) =
      separate loc (select_donors db (dict_get BLOOD_COMPATIBILITY g [])) ([], [])"
    by (simp add: find_compatible_donors_def find_compatible_donors_body_def Let_def)
  then show ?thesis using that[of "select_donors db (dict_get BLOOD_COMPATIBILITY g [])"]
    by (simp add: separate_filter)
next
  case False
  with assms have "nearby = [] \<and> far = []"
    by (auto simp: find_compatible_donors_def find_compatible_donors_body_def Let_def
        split: if_splits option.splits)
  then show ?thesis using that[of "[]"] by simp
qed

lemma fcd_returns: "\<exists>nearby far. find_compatible_donors w db g loc = Inr (nearby, far)"
  by (auto simp: find_compatible_donors_def find_compatible_donors_body_def Let_def
      split: option.splits prod.splits sum.splits)

lemma fcd_reachable:
  assumes "connection_find w" and "select_donors_raises w = None"
  shows "find_compatible_donors w db g loc =
           Inr (separate loc (select_donors db (dict_get BLOOD_COMPATIBILITY g [])) ([], []))"
  using assms
  by (simp add: find_compatible_donors_def find_compatible_donors_body_def Let_def
      select_donors_def)

lemma select_donors_cong:
  "donors db' = donors db \<Longrightarrow> select_donors db' gs = select_donors db gs"
  by (simp add: select_donors_def)

lemma fcd_donors_only:
  "donors db' = donors db \<Longrightarrow>
   find_compatible_donors w db' g loc = find_compatible_donors w db g loc"
  using select_donors_cong[of db' db]
  by (simp add: find_compatible_donors_def find_compatible_donors_body_def Let_def
      split: option.splits)

lemma unknown_group: "g \<notin> set blood_types \<Longrightarrow> dict_get BLOOD_COMPATIBILITY g [] = []"
  by (simp add: blood_types_def BLOOD_COMPATIBILITY_items_def BLOOD_COMPATIBILITY_def
      dict_get_def)

section \<open>The notification loops: auxiliary facts\<close>

lemma insert_match_Inr:
  assumes "insert_match w rid did db = Inr db'"
  shows "insert_match_raises w rid did = None"
    and "\<exists>m. matches db' = matches db @ [m] \<and> match_key m = (rid, did)"
    and "donors db' = donors db" and "blood_requests db' = blood_requests db"
    and "request_seq db' = request_seq db"
  using assms by (auto simp: insert_match_def match_key_def split: option.splits)

lemma insert_match_Inl:
  "insert_match w rid did db = Inl e \<Longrightarrow> insert_match_raises w rid did = Some e"
  by (auto simp: insert_match_def split: option.splits)

lemma notify_nearby_result:
  assumes "notify_nearby w rid rd ds (db, n, calls) = (db', n', calls')"
  shows "(\<exists>new. matches db' = matches db @ new \<and>
            map match_key new = map (\<lambda>d. (rid, donor_id d))
               (filter (\<lambda>d. email_confirmed w rd d \<and> insert_accepted w rid d) ds))
       \<and> n' = n + length (filter (\<lambda>d. email_confirmed w rd d \<and> insert_accepted w rid d) ds)
       \<and> calls' = calls @ calls_for ds
       \<and> donors db' = donors db \<and> blood_requests db' = blood_requests db
       \<and> request_seq db' = request_seq db"
  using assms
proof (induction ds arbitrary: db n calls)
  case Nil
  then show ?case by (simp add: calls_for_def)
next
  case (Cons d ds)
  let ?calls = "calls @ [EmailAttempt d, WhatsAppAttempt d]"
  show ?case
  proof (cases "email_confirmed w rd d")
    case False
    with Cons.prems have "notify_nearby w rid rd ds (db, n, ?calls) = (db', n', calls')"
      by (simp add: email_confirmed_def Let_def)
    from Cons.IH[OF this] False show ?thesis by (simp add: calls_for_def)
  next
    case True
    show ?thesis
    proof (cases "insert_match w rid (donor_id d) db")
      case (Inl e)
      with True Cons.prems have "notify_nearby w rid rd ds (db, n, ?calls) = (db', n', calls')"
        by (simp add: email_confirmed_def Let_def)
      from Cons.IH[OF this] insert_match_Inl[OF Inl] show ?thesis
        by (simp add: calls_for_def insert_accepted_def)
    next
      case (Inr db1)
      with True Cons.prems
      have "notify_nearby w rid rd ds (db1, n + 1, ?calls) = (db', n', calls')"
        by (simp add: email_confirmed_def Let_def)
      from Cons.IH[OF this] insert_match_Inr[OF Inr] True show ?thesis
        by (auto simp: calls_for_def insert_accepted_def)
    qed
  qed
qed

lemma notify_far_result:
  assumes "notify_far w rid rd ds (db, calls) = (db', calls')"
  shows "(\<exists>new. matches db' = matches db @ new \<and>
            map match_key new = map (\<lambda>d. (rid, donor_id d))
               (filter (\<lambda>d. insert_accepted w rid d) ds))
       \<and> calls' = calls @ calls_for ds
       \<and> donors db' = donors db \<and> blood_requests db' = blood_requests db
       \<and> request_seq db' = request_seq db"
  using assms
proof (induction ds arbitrary: db calls)
  case Nil
  then show ?case by (simp add: calls_for_def)
next
  case (Cons d ds)
  let ?calls = "calls @ [EmailAttempt d, WhatsAppAttempt d]"
  show ?case
  proof (cases "insert_match w rid (donor_id d) db")
    case (Inl e)
    with Cons.prems have "notify_far w rid rd ds (db, ?calls) = (db', calls')"
      by (simp add: Let_def)
    from Cons.IH[OF this] insert_match_Inl[OF Inl] show ?thesis
      by (simp add: calls_for_def insert_accepted_def)
  next
    case (Inr db1)
    with Cons.prems have "notify_far w rid rd ds (db1, ?calls) = (db', calls')"
      by (simp add: Let_def)
    from Cons.IH[OF this] insert_match_Inr[OF Inr] show ?thesis
      by (auto simp: calls_for_def insert_accepted_def)
  qed
qed

lemma notify_donors_result:
  assumes "notify_donors w rid rd nearby far db = (db', n, calls)"
  shows "(\<exists>new. matches db' = matches db @ new \<and>
            map match_key new = map (\<lambda>d. (rid, donor_id d))
               (filter (\<lambda>d. email_confirmed w rd d \<and> insert_accepted w rid d) nearby
                @ filter (\<lambda>d. insert_accepted w rid d) (take 5 far)))
       \<and> n = length (filter (\<lambda>d. email_confirmed w rd d \<and> insert_accepted w rid d) nearby)
       \<and> calls = calls_for nearby @ calls_for (take 5 far)
       \<and> donors db' = donors db \<and> blood_requests db' = blood_requests db
       \<and> request_seq db' = request_seq db"
proof -
  obtain db2 n2 calls2 where near: "notify_nearby w rid rd nearby (db, 0, []) = (db2, n2, calls2)"
    by (cases "notify_nearby w rid rd nearby (db, 0, [])") auto
  obtain db3 calls3 where far: "notify_far w rid rd (take 5 far) (db2, calls2) = (db3, calls3)"
    by (cases "notify_far w rid rd (take 5 far) (db2, calls2)") auto
  from assms near far have eq: "db' = db3" "n = n2" "calls = calls3"
    by (simp_all add: notify_donors_def)
  from notify_nearby_result[OF near] notify_far_result[OF far] show ?thesis
    unfolding eq by auto
qed

lemma email_calls_append: "email_calls (xs @ ys) = email_calls xs @ email_calls ys"
  by (induction xs rule: email_calls.induct) simp_all

lemma whatsapp_calls_append: "whatsapp_calls (xs @ ys) = whatsapp_calls xs @ whatsapp_calls ys"
  by (induction xs rule: whatsapp_calls.induct) simp_all

lemma email_calls_for: "email_calls (calls_for ds) = ds"
  by (induction ds) (simp_all add: calls_for_def)

lemma whatsapp_calls_for: "whatsapp_calls (calls_for ds) = ds"
  by (induction ds) (simp_all add: calls_for_def)

lemma set_calls_for: "set (calls_for ds) = EmailAttempt ` set ds \<union> WhatsAppAttempt ` set ds"
  by (induction ds) (auto simp: calls_for_def)

lemma insert_request_Inr:
  assumes "insert_request_raises w = None"
  obtains db1 where "insert_request w data db = Inr db1" "donors db1 = donors db"
    "matches db1 = matches db" "request_seq db1 = request_seq db + 1"
    "\<exists>r. blood_requests db1 = blood_requests db @ [r]"
  using assms by (simp add: insert_request_def)

lemma submit_request_persisted:
  assumes p: "request_persisted w data"
    and fcd: "find_compatible_donors w db (item data ''required_blood_group'')
                (item data ''hospital_location'') = Inr (nearby, far)"
  obtains db1 db3 n calls where
    "donors db1 = donors db" "matches db1 = matches db" "request_seq db1 = request_seq db + 1"
    "notify_donors w (request_seq db + 1) (mk_request_details data) nearby far db1
       = (db3, n, calls)"
    "submit_request w db data =
       (case commit_matches_raises w of
          Some e \<Rightarrow> (error_response e, db1, calls)
        | None \<Rightarrow> (Response 201 (Accepted n (request_seq db + 1) (length nearby) (length far)),
                   db3, calls))"
proof -
  from p have flags: "list_all (\<lambda>field. data field \<noteq> None) required_fields"
    "connection_submit w" "insert_request_raises w = None" "commit_request_raises w = None"
    by (simp_all add: request_persisted_def)
  obtain db1 where db1: "insert_request w data db = Inr db1" "donors db1 = donors db"
    "matches db1 = matches db" "request_seq db1 = request_seq db + 1"
    using insert_request_Inr[OF flags(3)] by blast
  have fcd1: "find_compatible_donors w db1 (item data ''required_blood_group'')
                (item data ''hospital_location'') = Inr (nearby, far)"
    using fcd fcd_donors_only[OF db1(2)] by simp
  obtain db3 n calls where nd:
    "notify_donors w (request_seq db + 1) (mk_request_details data) nearby far db1
       = (db3, n, calls)"
    by (cases "notify_donors w (request_seq db + 1) (mk_request_details data) nearby far db1")
       auto
  have "submit_request w db data =
       (case commit_matches_raises w of
          Some e \<Rightarrow> (error_response e, db1, calls)
        | None \<Rightarrow> (Response 201 (Accepted n (request_seq db + 1) (length nearby) (length far)),
                   db3, calls))"
    using flags db1 fcd1 nd by (simp add: submit_request_def split: option.splits)
  with db1 nd show ?thesis using that by blast
qed

lemma submit_request_not_persisted:
  assumes "\<not> request_persisted w data"
  shows "snd (submit_request w db data) = (db, [])"
  using assms
  by (auto simp: request_persisted_def submit_request_def insert_request_def Let_def
      split: option.splits sum.splits prod.splits)

lemma tiers_distinct:
  assumes "distinct (map donor_id ds)"
  shows "distinct (map donor_id (filter P ds @ take k (filter (\<lambda>d. \<not> P d) ds)))"
proof -
  from assms have d: "distinct ds" and inj: "inj_on donor_id (set ds)"
    by (simp_all add: distinct_map)
  have sub: "set (take k (filter (\<lambda>d. \<not> P d) ds)) \<subseteq> set (filter (\<lambda>d. \<not> P d) ds)"
    by (rule set_take_subset)
  have "distinct (filter P ds @ take k (filter (\<lambda>d. \<not> P d) ds))"
    using d sub by (auto dest: in_set_takeD)
  moreover have "inj_on donor_id (set (filter P ds @ take k (filter (\<lambda>d. \<not> P d) ds)))"
    using sub by (intro inj_on_subset[OF inj]) auto
  ultimately show ?thesis by (simp only: distinct_map)
qed

section \<open>Facts about the concrete store\<close>

lemma blood_types_items:
  "blood_types = [''A+'', ''A-'', ''B+'', ''B-'', ''AB+'', ''AB-'', ''O+'', ''O-'']"
  by (simp add: blood_types_def BLOOD_COMPATIBILITY_items_def)

section \<open>Compatibility matrix\<close>

text \<open>
  Claim C3. For each of the 8 blood types \<open>T\<close>, the compatible donor types of \<open>T\<close> are
  not empty and contain \<open>T\<close>; those of \<open>O-\<close> are exactly \<open>O-\<close>, and those of \<open>AB+\<close> are
  all 8 types.
\<close>

theorem compatibility_matrix_self:
  "(\<forall>T \<in> set blood_types.
       dict_get BLOOD_COMPATIBILITY T [] \<noteq> [] \<and> T \<in> set (dict_get BLOOD_COMPATIBILITY T []))
   \<and> set (dict_get BLOOD_COMPATIBILITY ''O-'' []) = {''O-''}
   \<and> set (dict_get BLOOD_COMPATIBILITY ''AB+'' []) = set blood_types
   \<and> blood_types = [''A+'', ''A-'', ''B+'', ''B-'', ''AB+'', ''AB-'', ''O+'', ''O-'']
   \<and> distinct blood_types \<and> length blood_types = 8"
proof -
  have self: "\<forall>T \<in> set blood_types.
       dict_get BLOOD_COMPATIBILITY T [] \<noteq> [] \<and> T \<in> set (dict_get BLOOD_COMPATIBILITY T [])"
    by (simp add: blood_types_items BLOOD_COMPATIBILITY_items_def BLOOD_COMPATIBILITY_def
        dict_get_def)
  have o_neg: "dict_get BLOOD_COMPATIBILITY ''O-'' [] = [''O-'']"
    by (simp add: BLOOD_COMPATIBILITY_items_def BLOOD_COMPATIBILITY_def dict_get_def)
  have ab_pos: "dict_get BLOOD_COMPATIBILITY ''AB+'' [] =
                  [''A+'', ''A-'', ''B+'', ''B-'', ''AB+'', ''AB-'', ''O+'', ''O-'']"
    by (simp add: BLOOD_COMPATIBILITY_items_def BLOOD_COMPATIBILITY_def dict_get_def)
  have eight: "distinct blood_types \<and> length blood_types = 8"
    by (simp add: blood_types_items)
  from self eight show ?thesis
    unfolding o_neg ab_pos by (simp add: blood_types_items)
qed

text \<open>
  The entry of \<open>B+\<close>.
\<close>

theorem compatibility_matrix_self_witness:
  "''B+'' \<in> set blood_types \<and> dict_get BLOOD_COMPATIBILITY ''B+'' [] \<noteq> []
   \<and> ''B+'' \<in> set (dict_get BLOOD_COMPATIBILITY ''B+'' [])"
proof -
  have h: "''B+'' \<in> set blood_types"
    by (simp add: blood_types_items)
  with compatibility_matrix_self show ?thesis by blast
qed

text \<open>
  Claim C2, as the code has it. For every string that is not one of the 8 blood types,
  looking up the compatible donor types gives the empty list, and
  \<open>find_compatible_donors\<close> returns the pair of two empty lists, in every world and
  for every store. No error is raised.
\<close>

theorem unknown_blood_type_returns_empty:
  assumes "g \<notin> set blood_types"
  shows "dict_get BLOOD_COMPATIBILITY g [] = []
       \<and> find_compatible_donors w db g loc = Inr ([], [])"
  using unknown_group[OF assms]
  by (simp add: find_compatible_donors_def find_compatible_donors_body_def)

text \<open>
  The string \<open>C+\<close>.
\<close>

theorem unknown_blood_type_returns_empty_witness:
  "''C+'' \<notin> set blood_types
   \<and> dict_get BLOOD_COMPATIBILITY ''C+'' [] = []
   \<and> find_compatible_donors example_world example_db ''C+'' ''Mumbai'' = Inr ([], [])"
proof -
  have h: "''C+'' \<notin> set blood_types"
    by (simp add: blood_types_def BLOOD_COMPATIBILITY_items_def)
  from unknown_blood_type_returns_empty[OF h, of example_world example_db "''Mumbai''"] h
  show ?thesis by simp
qed

text \<open>
  The string \<open>XY\<close> is not a blood type; \<open>find_compatible_donors\<close> returns two empty
  lists for it rather than failing, and a request for \<open>XY\<close> is stored and answered
  with 201 and zero counts.
\<close>

theorem unknown_blood_type_counterexample:
  "''XY'' \<notin> set blood_types
   \<and> find_compatible_donors example_world example_db ''XY'' ''Mumbai'' = Inr ([], [])
   \<and> fst (submit_request example_world example_db
            (example_data(''required_blood_group'' \<mapsto> ''XY'')))
       = Response 201 (Accepted 0 1 0 0)"
  by code_simp

section \<open>Proximity classification\<close>




text \<open>
  Claim C6. The classification is symmetric in its two arguments.
\<close>

theorem classify_symmetric:
  "calculate_location_distance a b = calculate_location_distance b a"
  by (auto simp: calculate_location_distance_def Let_def)

text \<open>
  Two spellings of the same city.
\<close>

theorem classify_symmetric_witness:
  "calculate_location_distance ''Mumbai Central'' ''mumbai'' = calculate_location_distance ''mumbai'' ''Mumbai Central''"
  using classify_symmetric[of "''Mumbai Central''" "''mumbai''"] by simp

text \<open>
  Claim C10. The proximity score is always 0, 1 or 2. When either location is empty after
  normalisation, the score is not 2; hence a donor whose location is blank is put in the
  near tier by the separation loop, and by \<open>find_compatible_donors\<close> when the store
  is reachable, for every hospital location.
\<close>

theorem distance_range_blank_near:
  "calculate_location_distance a b \<in> {0, 1, 2}
   \<and> (strip (lower a) = [] \<or> strip (lower b) = [] \<longrightarrow> calculate_location_distance a b \<noteq> 2)
   \<and> (d \<in> set ds \<and> strip (lower (location d)) = [] \<longrightarrow>
        d \<in> set (fst (separate loc ds ([], []))) \<and> d \<notin> set (snd (separate loc ds ([], []))))
   \<and> (connection_find w \<and> select_donors_raises w = None \<and> d \<in> set (donors db)
        \<and> blood_group d \<in> set (dict_get BLOOD_COMPATIBILITY g [])
        \<and> strip (lower (location d)) = [] \<longrightarrow>
        (\<exists>nearby far. find_compatible_donors w db g loc = Inr (nearby, far) \<and> d \<in> set nearby))"
proof -
  have 1: "calculate_location_distance a b \<in> {0, 1, 2}"
    using distance_cases[of a b] by auto
  have 2: "strip (lower a) = [] \<or> strip (lower b) = [] \<longrightarrow> calculate_location_distance a b \<noteq> 2"
    using distance_blank[of a b] by auto
  have blank: "calculate_location_distance (location d) loc \<le> 1" if "strip (lower (location d)) = []"
    using that distance_blank[of "location d" loc] by simp
  have 3: "d \<in> set ds \<and> strip (lower (location d)) = [] \<longrightarrow>
        d \<in> set (fst (separate loc ds ([], []))) \<and> d \<notin> set (snd (separate loc ds ([], [])))"
    using blank by (simp add: separate_filter)
  have 4: "connection_find w \<and> select_donors_raises w = None \<and> d \<in> set (donors db)
        \<and> blood_group d \<in> set (dict_get BLOOD_COMPATIBILITY g [])
        \<and> strip (lower (location d)) = [] \<longrightarrow>
        (\<exists>nearby far. find_compatible_donors w db g loc = Inr (nearby, far) \<and> d \<in> set nearby)"
    using blank by (auto simp: fcd_reachable separate_filter select_donors_def)
  from 1 2 3 4 show ?thesis by blast
qed

text \<open>
  A donor whose location is three blanks, and a hospital in Delhi.
\<close>

theorem distance_range_blank_near_witness:
  "strip (lower ''   '') = []
   \<and> calculate_location_distance ''   '' ''Delhi'' \<noteq> 2
   \<and> blank_donor \<in> set [ravi, blank_donor] \<and> strip (lower (location blank_donor)) = []
   \<and> blank_donor \<in> set (fst (separate ''Delhi'' [ravi, blank_donor] ([], [])))
   \<and> connection_find example_world \<and> select_donors_raises example_world = None
   \<and> blank_donor \<in> set (donors (example_db\<lparr>donors := [ravi, blank_donor]\<rparr>))
   \<and> blood_group blank_donor \<in> set (dict_get BLOOD_COMPATIBILITY ''A+'' [])
   \<and> (\<exists>nearby far.
         find_compatible_donors example_world (example_db\<lparr>donors := [ravi, blank_donor]\<rparr>)
           ''A+'' ''Delhi'' = Inr (nearby, far) \<and> blank_donor \<in> set nearby)"
proof -
  have h1: "strip (lower ''   '') = []" by code_simp
  have h2: "blank_donor \<in> set [ravi, blank_donor]" by simp
  have h3: "strip (lower (location blank_donor)) = []" by code_simp
  have h4: "connection_find example_world" "select_donors_raises example_world = None"
    by code_simp+
  have h5: "blank_donor \<in> set (donors (example_db\<lparr>donors := [ravi, blank_donor]\<rparr>))"
    by simp
  have h6: "blood_group blank_donor \<in> set (dict_get BLOOD_COMPATIBILITY ''A+'' [])"
    by code_simp
  from distance_range_blank_near[of "''   ''" "''Delhi''" blank_donor "[ravi, blank_donor]"
      "''Delhi''" example_world "example_db\<lparr>donors := [ravi, blank_donor]\<rparr>" "''A+''"]
    h1 h2 h3 h4 h5 h6
  show ?thesis by blast
qed

section \<open>Donor matching\<close>

text \<open>
  Claim C4, as the code has it. When the donor store is unreachable (no connection, or the
  query raises), \<open>find_compatible_donors\<close> returns the pair of two empty lists, which is
  also what it returns for a reachable store that holds no eligible donor: the caller
  gets the same value in both cases.
\<close>

theorem store_unreachable_returns_empty:
  assumes "\<not> connection_find w \<or> select_donors_raises w \<noteq> None"
    and "select_donors db' (dict_get BLOOD_COMPATIBILITY g []) = []"
  shows "find_compatible_donors w db g loc = Inr ([], [])
       \<and> find_compatible_donors w' db' g loc = find_compatible_donors w db g loc"
proof -
  have "find_compatible_donors w db g loc = Inr ([], [])"
    using assms(1)
    by (auto simp: find_compatible_donors_def find_compatible_donors_body_def Let_def)
  moreover have "find_compatible_donors w' db' g loc = Inr ([], [])"
    using assms(2)
    by (auto simp: find_compatible_donors_def find_compatible_donors_body_def Let_def
        split: option.splits)
  ultimately show ?thesis by simp
qed

text \<open>
  The unreachable store of \<open>unreachable_world\<close> and the empty store.
\<close>

theorem store_unreachable_returns_empty_witness:
  "connection_find unreachable_world = False
   \<and> select_donors empty_db (dict_get BLOOD_COMPATIBILITY ''A+'' []) = []
   \<and> find_compatible_donors unreachable_world example_db ''A+'' ''Mumbai'' = Inr ([], [])
   \<and> find_compatible_donors example_world empty_db ''A+'' ''Mumbai''
       = find_compatible_donors unreachable_world example_db ''A+'' ''Mumbai''"
proof -
  have h1: "\<not> connection_find unreachable_world \<or> select_donors_raises unreachable_world \<noteq> None"
    by (simp add: unreachable_world_def)
  have h2: "select_donors empty_db (dict_get BLOOD_COMPATIBILITY ''A+'' []) = []"
    by (simp add: select_donors_def empty_db_def)
  have h0: "connection_find unreachable_world = False"
    by (simp add: unreachable_world_def example_world_def)
  from store_unreachable_returns_empty[OF h1 h2, of example_db "''Mumbai''" example_world] h0 h2
  show ?thesis by blast
qed

text \<open>
  With the store unreachable and eight eligible donors in it, and with the store reachable
  and no donor in it, \<open>find_compatible_donors\<close> returns the same pair of empty lists.
\<close>

theorem store_unavailable_counterexample:
  "connection_find unreachable_world = False
   \<and> select_donors example_db (dict_get BLOOD_COMPATIBILITY ''A+'' []) = [asha, ravi] @ far_six
   \<and> find_compatible_donors unreachable_world example_db ''A+'' ''Mumbai'' = Inr ([], [])
   \<and> connection_find example_world = True
   \<and> select_donors empty_db (dict_get BLOOD_COMPATIBILITY ''A+'' []) = []
   \<and> find_compatible_donors example_world empty_db ''A+'' ''Mumbai'' = Inr ([], [])"
  by code_simp

section \<open>The request pipeline\<close>

text \<open>
  Claim C1, as the code has it. Take a submission whose request row is stored and whose
  final \<open>commit\<close> succeeds, and let \<open>nearby\<close> and \<open>far\<close> be the two tiers that
  \<open>find_compatible_donors\<close> returns. The response is 201. The match rows added are, in
  this order: one for each near-tier donor for whom the email channel reported success and
  whose \<open>INSERT\<close> was accepted, then one for each of the first five far-tier donors whose
  \<open>INSERT\<close> was accepted, whatever their email outcome. \<open>notified_count\<close> is the number of
  those near-tier rows; far-tier donors never add to it. When no \<open>INSERT\<close> raises, the rows
  are those of the email-confirmed near-tier donors and of the first five far-tier donors.
\<close>

theorem submit_request_match_rows:
  assumes p: "request_persisted w data"
    and c: "commit_matches_raises w = None"
    and fcd: "find_compatible_donors w db (item data ''required_blood_group'')
                (item data ''hospital_location'') = Inr (nearby, far)"
  shows "\<exists>db' new calls.
          submit_request w db data =
            (Response 201
               (Accepted
                  (length (filter (\<lambda>d. email_confirmed w (mk_request_details data) d
                                      \<and> insert_accepted w (request_seq db + 1) d) nearby))
                  (request_seq db + 1) (length nearby) (length far)),
             db', calls)
        \<and> matches db' = matches db @ new
        \<and> map match_key new = map (\<lambda>d. (request_seq db + 1, donor_id d))
            (filter (\<lambda>d. email_confirmed w (mk_request_details data) d
                        \<and> insert_accepted w (request_seq db + 1) d) nearby
             @ filter (insert_accepted w (request_seq db + 1)) (take 5 far))
        \<and> ((\<forall>d \<in> set nearby \<union> set (take 5 far). insert_accepted w (request_seq db + 1) d)
             \<longrightarrow>
             submit_request w db data =
               (Response 201
                  (Accepted
                     (length (filter (email_confirmed w (mk_request_details data)) nearby))
                     (request_seq db + 1) (length nearby) (length far)),
                db', calls)
             \<and> map match_key new = map (\<lambda>d. (request_seq db + 1, donor_id d))
                 (filter (email_confirmed w (mk_request_details data)) nearby @ take 5 far))"
proof -
  obtain db1 db3 n calls where
    db1: "matches db1 = matches db"
    and nd: "notify_donors w (request_seq db + 1) (mk_request_details data) nearby far db1
       = (db3, n, calls)"
    and sr: "submit_request w db data =
       (case commit_matches_raises w of
          Some e \<Rightarrow> (error_response e, db1, calls)
        | None \<Rightarrow> (Response 201 (Accepted n (request_seq db + 1) (length nearby) (length far)),
                   db3, calls))"
    using submit_request_persisted[OF p fcd] by metis
  from notify_donors_result[OF nd] obtain new where
    new: "matches db3 = matches db1 @ new"
    and keys: "map match_key new = map (\<lambda>d. (request_seq db + 1, donor_id d))
            (filter (\<lambda>d. email_confirmed w (mk_request_details data) d
                        \<and> insert_accepted w (request_seq db + 1) d) nearby
             @ filter (insert_accepted w (request_seq db + 1)) (take 5 far))"
    and n: "n = length (filter (\<lambda>d. email_confirmed w (mk_request_details data) d
                                      \<and> insert_accepted w (request_seq db + 1) d) nearby)"
    by blast
  have sr': "submit_request w db data =
      (Response 201 (Accepted n (request_seq db + 1) (length nearby) (length far)), db3, calls)"
    using sr c by simp
  have all_accepted:
    "filter (\<lambda>d. email_confirmed w (mk_request_details data) d
                   \<and> insert_accepted w (request_seq db + 1) d) nearby
       = filter (email_confirmed w (mk_request_details data)) nearby
     \<and> filter (insert_accepted w (request_seq db + 1)) (take 5 far) = take 5 far"
    if "\<forall>d \<in> set nearby \<union> set (take 5 far). insert_accepted w (request_seq db + 1) d"
    using that by (auto intro: filter_cong)
  show ?thesis
  proof (intro exI[of _ db3] exI[of _ new] exI[of _ calls] conjI impI)
    show "submit_request w db data =
            (Response 201
               (Accepted
                  (length (filter (\<lambda>d. email_confirmed w (mk_request_details data) d
                                      \<and> insert_accepted w (request_seq db + 1) d) nearby))
                  (request_seq db + 1) (length nearby) (length far)),
             db3, calls)"
      using sr' n by simp
    show "matches db3 = matches db @ new" using new db1 by simp
    show "map match_key new = map (\<lambda>d. (request_seq db + 1, donor_id d))
            (filter (\<lambda>d. email_confirmed w (mk_request_details data) d
                        \<and> insert_accepted w (request_seq db + 1) d) nearby
             @ filter (insert_accepted w (request_seq db + 1)) (take 5 far))"
      by (rule keys)
  next
    assume acc: "\<forall>d \<in> set nearby \<union> set (take 5 far).
                   insert_accepted w (request_seq db + 1) d"
    show "submit_request w db data =
               (Response 201
                  (Accepted
                     (length (filter (email_confirmed w (mk_request_details data)) nearby))
                     (request_seq db + 1) (length nearby) (length far)),
                db3, calls)"
      using sr' n all_accepted[OF acc] by simp
    show "map match_key new = map (\<lambda>d. (request_seq db + 1, donor_id d))
                 (filter (email_confirmed w (mk_request_details data)) nearby @ take 5 far)"
      using keys all_accepted[OF acc] by simp
  qed
qed

text \<open>
  The concrete store: one row for Asha, none for Ravi, whose mail fails, and five far-tier rows.
\<close>

theorem submit_request_match_rows_witness:
  "request_persisted example_world example_data
   \<and> commit_matches_raises example_world = None
   \<and> find_compatible_donors example_world example_db (item example_data ''required_blood_group'')
        (item example_data ''hospital_location'') = Inr ([asha, ravi], far_six)
   \<and> list_all (insert_accepted example_world (request_seq example_db + 1))
         ([asha, ravi] @ take 5 far_six)
   \<and> (\<exists>db' new calls.
        submit_request example_world example_db example_data
          = (Response 201 (Accepted 1 1 2 6), db', calls)
        \<and> matches db' = matches example_db @ new
        \<and> map match_key new = [(1, 1), (1, 3), (1, 4), (1, 5), (1, 6), (1, 7)])"
proof -
  have h1: "request_persisted example_world example_data" by code_simp
  have h2: "commit_matches_raises example_world = None" by code_simp
  have h3: "find_compatible_donors example_world example_db
              (item example_data ''required_blood_group'')
              (item example_data ''hospital_location'') = Inr ([asha, ravi], far_six)"
    by code_simp
  have h4': "list_all (insert_accepted example_world (request_seq example_db + 1))
               ([asha, ravi] @ take 5 far_six)"
    by code_simp
  then have h4: "\<forall>d \<in> set [asha, ravi] \<union> set (take 5 far_six).
              insert_accepted example_world (request_seq example_db + 1) d"
    by (simp only: list_all_iff set_append)
  have e1: "filter (email_confirmed example_world (mk_request_details example_data))
              [asha, ravi] = [asha]"
    by code_simp
  have e2: "map (\<lambda>d. (request_seq example_db + 1, donor_id d)) ([asha] @ take 5 far_six)
            = [(1, 1), (1, 3), (1, 4), (1, 5), (1, 6), (1, 7)]"
    by code_simp
  have e3: "request_seq example_db + 1 = 1" "length far_six = 6"
    by code_simp+
  from submit_request_match_rows[OF h1 h2 h3] h4
  obtain db' new calls where
    "submit_request example_world example_db example_data =
       (Response 201
          (Accepted
             (length (filter (email_confirmed example_world (mk_request_details example_data))
                        [asha, ravi]))
             (request_seq example_db + 1) (length [asha, ravi]) (length far_six)),
        db', calls)"
    "matches db' = matches example_db @ new"
    "map match_key new = map (\<lambda>d. (request_seq example_db + 1, donor_id d))
        (filter (email_confirmed example_world (mk_request_details example_data)) [asha, ravi]
         @ take 5 far_six)"
    by blast
  then have "\<exists>db' new calls.
        submit_request example_world example_db example_data
          = (Response 201 (Accepted 1 1 2 6), db', calls)
        \<and> matches db' = matches example_db @ new
        \<and> map match_key new = [(1, 1), (1, 3), (1, 4), (1, 5), (1, 6), (1, 7)]"
    unfolding e1 e2 unfolding e3 by (simp add: numeral_2_eq_2)
  with h1 h2 h3 h4' show ?thesis by blast
qed

text \<open>
  In \<open>locked_world\<close> the mail to Asha, a near-tier donor, is sent successfully, but every
  \<open>INSERT INTO matches\<close> raises and is caught inside the loops. The request is stored and
  answered with 201, seven donors are notified, no match row exists and \<open>notified_count\<close>
  is 0: neither the email-confirmed near-tier donor nor the five attempted far-tier donors
  get a row.
\<close>

theorem match_row_iff_email_counterexample:
  "request_persisted locked_world example_data
   \<and> find_compatible_donors locked_world example_db (item example_data ''required_blood_group'')
        (item example_data ''hospital_location'') = Inr ([asha, ravi], far_six)
   \<and> send_email_notification locked_world (email asha) (name asha)
        (mk_request_details example_data) = True
   \<and> fst (submit_request locked_world example_db example_data)
        = Response 201 (Accepted 0 1 2 6)
   \<and> matches (fst (snd (submit_request locked_world example_db example_data))) = []
   \<and> email_calls (snd (snd (submit_request locked_world example_db example_data)))
        = [asha, ravi] @ take 5 far_six"
  by code_simp

text \<open>
  Claim C7. In a run whose request row is stored, the notification calls are, in this
  order: an email call and a WhatsApp call for every near-tier donor, without bound, then
  an email call and a WhatsApp call for each of the first five far-tier donors. A run
  whose request row is not stored makes no call. Since donor ids are a primary key, a
  far-tier donor beyond the first five is never called.
\<close>

theorem near_then_five_far:
  assumes fcd: "find_compatible_donors w db (item data ''required_blood_group'')
                  (item data ''hospital_location'') = Inr (nearby, far)"
  shows "snd (snd (submit_request w db data)) =
           (if request_persisted w data
            then calls_for nearby @ calls_for (take 5 far) else [])
       \<and> (distinct (map donor_id (donors db)) \<longrightarrow>
            (\<forall>d \<in> set (drop 5 far).
               EmailAttempt d \<notin> set (snd (snd (submit_request w db data)))
             \<and> WhatsAppAttempt d \<notin> set (snd (snd (submit_request w db data)))))"
proof -
  have calls: "snd (snd (submit_request w db data)) =
           (if request_persisted w data
            then calls_for nearby @ calls_for (take 5 far) else [])"
  proof (cases "request_persisted w data")
    case False
    then show ?thesis by (simp add: submit_request_not_persisted)
  next
    case True
    obtain db1 db3 n calls where
      nd: "notify_donors w (request_seq db + 1) (mk_request_details data) nearby far db1
         = (db3, n, calls)"
      and sr: "submit_request w db data =
         (case commit_matches_raises w of
            Some e \<Rightarrow> (error_response e, db1, calls)
          | None \<Rightarrow> (Response 201 (Accepted n (request_seq db + 1) (length nearby) (length far)),
                     db3, calls))"
      using submit_request_persisted[OF True fcd] by metis
    from notify_donors_result[OF nd] sr True show ?thesis
      by (simp split: option.splits)
  qed
  have never: "EmailAttempt d \<notin> set (snd (snd (submit_request w db data)))
             \<and> WhatsAppAttempt d \<notin> set (snd (snd (submit_request w db data)))"
    if ids: "distinct (map donor_id (donors db))" and d: "d \<in> set (drop 5 far)" for d
  proof -
    obtain ds where ds: "ds = [] \<or> ds = select_donors db
          (dict_get BLOOD_COMPATIBILITY (item data ''required_blood_group'') [])"
      and n: "nearby = filter (\<lambda>d. calculate_location_distance (location d)
                (item data ''hospital_location'') \<le> 1) ds"
      and f: "far = filter (\<lambda>d. \<not> calculate_location_distance (location d)
                (item data ''hospital_location'') \<le> 1) ds"
      using fcd_shape[OF fcd] by blast
    from ds ids have "distinct ds"
      by (auto simp: select_donors_def distinct_map)
    then have "distinct far" unfolding f by simp
    then have "set (take 5 far) \<inter> set (drop 5 far) = {}"
      by (simp add: set_take_disj_set_drop_if_distinct)
    with d have 1: "d \<notin> set (take 5 far)" by auto
    from d have "d \<in> set far" by (rule in_set_dropD)
    then have 2: "d \<notin> set nearby" unfolding n f by auto
    from 1 2 show ?thesis by (auto simp: calls set_calls_for)
  qed
  from calls never show ?thesis by blast
qed

text \<open>
  The concrete store: the sixth far-tier donor is not called.
\<close>

theorem near_then_five_far_witness:
  "find_compatible_donors example_world example_db (item example_data ''required_blood_group'')
        (item example_data ''hospital_location'') = Inr ([asha, ravi], far_six)
   \<and> request_persisted example_world example_data
   \<and> distinct (map donor_id (donors example_db))
   \<and> far_donor 8 ''O+'' ''d8'' ''Surat'' \<in> set (drop 5 far_six)
   \<and> snd (snd (submit_request example_world example_db example_data))
        = calls_for [asha, ravi] @ calls_for (take 5 far_six)
   \<and> EmailAttempt (far_donor 8 ''O+'' ''d8'' ''Surat'')
        \<notin> set (snd (snd (submit_request example_world example_db example_data)))"
proof -
  have h1: "find_compatible_donors example_world example_db
              (item example_data ''required_blood_group'')
              (item example_data ''hospital_location'') = Inr ([asha, ravi], far_six)"
    by code_simp
  have h2: "request_persisted example_world example_data" by code_simp
  have h3: "distinct (map donor_id (donors example_db))" by code_simp
  have h4: "far_donor 8 ''O+'' ''d8'' ''Surat'' \<in> set (drop 5 far_six)" by code_simp
  from near_then_five_far[OF h1] h1 h2 h3 h4 show ?thesis by auto
qed

text \<open>
  Claim C8. Every match row that a run adds to the store carries the id of the new request
  and the id of a donor of the store whose blood group is among the compatible donor types
  of the required blood group. The same holds for every row inserted by the two loops, on
  the tiers that \<open>find_compatible_donors\<close> returned, committed or not.
\<close>

theorem match_rows_eligible:
  "(submit_request w db data = (resp, db', calls) \<longrightarrow>
      (\<exists>new. matches db' = matches db @ new
         \<and> (\<forall>m \<in> set new. match_request_id m = request_seq db + 1
               \<and> (\<exists>d \<in> set (donors db). donor_id d = match_donor_id m
                     \<and> blood_group d \<in> set (dict_get BLOOD_COMPATIBILITY
                                               (item data ''required_blood_group'') [])))))
   \<and> (find_compatible_donors w db g loc = Inr (nearby, far)
        \<and> notify_donors w rid rd nearby far cursor_db = (db3, n, calls3) \<longrightarrow>
      (\<exists>new. matches db3 = matches cursor_db @ new
         \<and> (\<forall>m \<in> set new. match_request_id m = rid
               \<and> (\<exists>d \<in> set (donors db). donor_id d = match_donor_id m
                     \<and> blood_group d \<in> set (dict_get BLOOD_COMPATIBILITY g [])))))"
proof -
  have loops: "\<exists>new. matches db3 = matches cursor_db @ new
         \<and> (\<forall>m \<in> set new. match_request_id m = rid
               \<and> (\<exists>d \<in> set (donors db). donor_id d = match_donor_id m
                     \<and> blood_group d \<in> set (dict_get BLOOD_COMPATIBILITY g [])))"
    if fcd: "find_compatible_donors w db g loc = Inr (nearby, far)"
      and nd: "notify_donors w rid rd nearby far cursor_db = (db3, n, calls3)"
    for g loc nearby far rid rd cursor_db db3 n calls3
  proof -
    obtain ds where ds: "ds = [] \<or> ds = select_donors db (dict_get BLOOD_COMPATIBILITY g [])"
      and nf: "nearby = filter (\<lambda>d. calculate_location_distance (location d) loc \<le> 1) ds"
         "far = filter (\<lambda>d. \<not> calculate_location_distance (location d) loc \<le> 1) ds"
      using fcd_shape[OF fcd] by blast
    have elig: "d \<in> set (donors db) \<and> blood_group d \<in> set (dict_get BLOOD_COMPATIBILITY g [])"
      if "d \<in> set nearby \<union> set (take 5 far)" for d
    proof -
      from that have "d \<in> set nearby \<union> set far" by (auto dest: in_set_takeD)
      then have "d \<in> set ds" unfolding nf by auto
      with ds show ?thesis by (auto simp: select_donors_def)
    qed
    from notify_donors_result[OF nd] obtain new where
      new: "matches db3 = matches cursor_db @ new"
      and keys: "map match_key new = map (\<lambda>d. (rid, donor_id d))
               (filter (\<lambda>d. email_confirmed w rd d \<and> insert_accepted w rid d) nearby
                @ filter (\<lambda>d. insert_accepted w rid d) (take 5 far))"
      by blast
    have "match_request_id m = rid
               \<and> (\<exists>d \<in> set (donors db). donor_id d = match_donor_id m
                     \<and> blood_group d \<in> set (dict_get BLOOD_COMPATIBILITY g []))"
      if m: "m \<in> set new" for m
    proof -
      from m have "match_key m \<in> set (map match_key new)" by simp
      then obtain d where "d \<in> set nearby \<union> set (take 5 far)" "match_key m = (rid, donor_id d)"
        unfolding keys by auto
      with elig[of d] show ?thesis by (auto simp: match_key_def)
    qed
    with new show ?thesis by blast
  qed
  have run: "\<exists>new. matches db' = matches db @ new
         \<and> (\<forall>m \<in> set new. match_request_id m = request_seq db + 1
               \<and> (\<exists>d \<in> set (donors db). donor_id d = match_donor_id m
                     \<and> blood_group d \<in> set (dict_get BLOOD_COMPATIBILITY
                                               (item data ''required_blood_group'') [])))"
    if sr: "submit_request w db data = (resp, db', calls)"
  proof (cases "request_persisted w data")
    case False
    with sr submit_request_not_persisted[of w data db] have "db' = db" by simp
    then show ?thesis by simp
  next
    case True
    obtain nearby far where fcd: "find_compatible_donors w db (item data ''required_blood_group'')
                  (item data ''hospital_location'') = Inr (nearby, far)"
      using fcd_returns by blast
    obtain db1 db3 n calls1 where
      db1: "matches db1 = matches db"
      and nd: "notify_donors w (request_seq db + 1) (mk_request_details data) nearby far db1
         = (db3, n, calls1)"
      and sr': "submit_request w db data =
         (case commit_matches_raises w of
            Some e \<Rightarrow> (error_response e, db1, calls1)
          | None \<Rightarrow> (Response 201 (Accepted n (request_seq db + 1) (length nearby) (length far)),
                     db3, calls1))"
      using submit_request_persisted[OF True fcd] by metis
    from sr sr' have "db' = db1 \<or> db' = db3" by (auto split: option.splits)
    then show ?thesis
    proof
      assume "db' = db1"
      with db1 show ?thesis by simp
    next
      assume "db' = db3"
      with loops[OF fcd nd] db1 show ?thesis by simp
    qed
  qed
  from run loops show ?thesis by blast
qed

text \<open>
  The six match rows of the concrete run.
\<close>

theorem match_rows_eligible_witness:
  "submit_request example_world example_db example_data =
     (fst (submit_request example_world example_db example_data),
      fst (snd (submit_request example_world example_db example_data)),
      snd (snd (submit_request example_world example_db example_data)))
   \<and> length (matches (fst (snd (submit_request example_world example_db example_data)))) = 6
   \<and> (\<exists>new. matches (fst (snd (submit_request example_world example_db example_data)))
              = matches example_db @ new
         \<and> (\<forall>m \<in> set new. match_request_id m = request_seq example_db + 1
               \<and> (\<exists>d \<in> set (donors example_db). donor_id d = match_donor_id m
                     \<and> blood_group d \<in> set (dict_get BLOOD_COMPATIBILITY
                                               (item example_data ''required_blood_group'') []))))
   \<and> find_compatible_donors example_world example_db ''A+'' ''Mumbai''
        = Inr ([asha, ravi], far_six)
   \<and> notify_donors locked_world 1 (mk_request_details example_data) [asha, ravi] far_six example_db
        = (example_db, 0, calls_for ([asha, ravi] @ take 5 far_six))
   \<and> notify_donors example_world 1 (mk_request_details example_data) [asha, ravi] far_six example_db
        = (fst (notify_donors example_world 1 (mk_request_details example_data) [asha, ravi] far_six example_db), 1,
           calls_for ([asha, ravi] @ take 5 far_six))
   \<and> (\<exists>new. matches (fst (notify_donors example_world 1 (mk_request_details example_data) [asha, ravi] far_six
                             example_db))
              = matches example_db @ new
         \<and> (\<forall>m \<in> set new. match_request_id m = 1
               \<and> (\<exists>d \<in> set (donors example_db). donor_id d = match_donor_id m
                     \<and> blood_group d \<in> set (dict_get BLOOD_COMPATIBILITY ''A+'' []))))"
proof -
  have h: "submit_request example_world example_db example_data =
     (fst (submit_request example_world example_db example_data),
      fst (snd (submit_request example_world example_db example_data)),
      snd (snd (submit_request example_world example_db example_data)))"
    by simp
  have six: "length (matches (fst (snd (submit_request example_world example_db
               example_data)))) = 6"
    by code_simp
  have f: "find_compatible_donors example_world example_db ''A+'' ''Mumbai''
             = Inr ([asha, ravi], far_six)"
    by code_simp
  have l: "notify_donors locked_world 1 (mk_request_details example_data) [asha, ravi] far_six example_db
             = (example_db, 0, calls_for ([asha, ravi] @ take 5 far_six))"
    by code_simp
  have n: "notify_donors example_world 1 (mk_request_details example_data) [asha, ravi] far_six example_db
        = (fst (notify_donors example_world 1 (mk_request_details example_data) [asha, ravi] far_six example_db), 1,
           calls_for ([asha, ravi] @ take 5 far_six))"
    by code_simp
  from match_rows_eligible[of example_world example_db example_data
      "fst (submit_request example_world example_db example_data)"
      "fst (snd (submit_request example_world example_db example_data))"
      "snd (snd (submit_request example_world example_db example_data))"
      "''A+''" "''Mumbai''" "[asha, ravi]" far_six 1 "mk_request_details example_data" example_db
      "fst (notify_donors example_world 1 (mk_request_details example_data) [asha, ravi] far_six example_db)" 1
      "calls_for ([asha, ravi] @ take 5 far_six)"] h six f l n
  show ?thesis by blast
qed

text \<open>
  Claim C9. In a run whose request row is stored, over a donors table with pairwise distinct
  ids: no donor is in both tiers, the two tiers together are the fetched donors, and on each
  channel the donors called are the near-tier donors followed by the first five far-tier
  donors, each once, with pairwise distinct ids. So no donor gets a second call on a
  channel.
\<close>

theorem one_attempt_per_channel:
  assumes p: "request_persisted w data"
    and ids: "distinct (map donor_id (donors db))"
    and fcd: "find_compatible_donors w db (item data ''required_blood_group'')
                (item data ''hospital_location'') = Inr (nearby, far)"
  shows "set nearby \<inter> set far = {}
       \<and> (connection_find w \<and> select_donors_raises w = None \<longrightarrow>
            mset nearby + mset far =
              mset (select_donors db
                     (dict_get BLOOD_COMPATIBILITY (item data ''required_blood_group'') [])))
       \<and> email_calls (snd (snd (submit_request w db data))) = nearby @ take 5 far
       \<and> whatsapp_calls (snd (snd (submit_request w db data))) = nearby @ take 5 far
       \<and> distinct (map donor_id (nearby @ take 5 far))"
proof -
  obtain db1 db3 n calls where
    nd: "notify_donors w (request_seq db + 1) (mk_request_details data) nearby far db1
       = (db3, n, calls)"
    and sr: "submit_request w db data =
       (case commit_matches_raises w of
          Some e \<Rightarrow> (error_response e, db1, calls)
        | None \<Rightarrow> (Response 201 (Accepted n (request_seq db + 1) (length nearby) (length far)),
                   db3, calls))"
    using submit_request_persisted[OF p fcd] by metis
  have calls: "snd (snd (submit_request w db data)) = calls_for nearby @ calls_for (take 5 far)"
    using notify_donors_result[OF nd] sr by (simp split: option.splits)
  obtain ds where ds: "ds = [] \<or> ds = select_donors db
        (dict_get BLOOD_COMPATIBILITY (item data ''required_blood_group'') [])"
    and n: "nearby = filter (\<lambda>d. calculate_location_distance (location d)
              (item data ''hospital_location'') \<le> 1) ds"
    and f: "far = filter (\<lambda>d. \<not> calculate_location_distance (location d)
              (item data ''hospital_location'') \<le> 1) ds"
    using fcd_shape[OF fcd] by blast
  from ds ids have "distinct (map donor_id ds)"
    by (auto simp: select_donors_def distinct_map_filter)
  from tiers_distinct[OF this] have once: "distinct (map donor_id (nearby @ take 5 far))"
    unfolding n f .
  have disjoint: "set nearby \<inter> set far = {}" unfolding n f by auto
  have partition: "mset nearby + mset far =
      mset (select_donors db
             (dict_get BLOOD_COMPATIBILITY (item data ''required_blood_group'') []))"
    if "connection_find w \<and> select_donors_raises w = None"
  proof -
    from that fcd have "(nearby, far) =
        separate (item data ''hospital_location'')
          (select_donors db
             (dict_get BLOOD_COMPATIBILITY (item data ''required_blood_group'') [])) ([], [])"
      by (simp add: fcd_reachable)
    then show ?thesis by (simp add: separate_filter)
  qed
  from once disjoint partition show ?thesis
    by (simp add: calls email_calls_append whatsapp_calls_append email_calls_for
        whatsapp_calls_for)
qed

text \<open>
  The concrete run: seven donors, each called once on each channel.
\<close>

theorem one_attempt_per_channel_witness:
  "request_persisted example_world example_data
   \<and> distinct (map donor_id (donors example_db))
   \<and> find_compatible_donors example_world example_db (item example_data ''required_blood_group'')
        (item example_data ''hospital_location'') = Inr ([asha, ravi], far_six)
   \<and> set [asha, ravi] \<inter> set far_six = {}
   \<and> email_calls (snd (snd (submit_request example_world example_db example_data)))
        = [asha, ravi] @ take 5 far_six
   \<and> whatsapp_calls (snd (snd (submit_request example_world example_db example_data)))
        = [asha, ravi] @ take 5 far_six
   \<and> distinct (map donor_id ([asha, ravi] @ take 5 far_six))"
proof -
  have h1: "request_persisted example_world example_data" by code_simp
  have h2: "distinct (map donor_id (donors example_db))" by code_simp
  have h3: "find_compatible_donors example_world example_db
              (item example_data ''required_blood_group'')
              (item example_data ''hospital_location'') = Inr ([asha, ravi], far_six)"
    by code_simp
  from one_attempt_per_channel[OF h1 h2 h3] h1 h2 h3 show ?thesis by blast
qed

end
